theory Spec2Isabelle
  imports Complex_Main "HOL-Library.Monad_Syntax"
begin

section \<open>Data model of vectorizer.py\<close>

text \<open>
  The program reads paths (sequences of segments with complex end points), turns each one
  into a Shapely geometry, and repeatedly applies a negative buffer to it. Python floats
  are idealised as \<^typ>\<open>real\<close>; a point is a pair of coordinates.
\<close>

type_synonym point = "real \<times> real"

text \<open>
  The Shapely geometries the program meets: a \<open>Polygon\<close> carries the coordinates of its
  exterior ring and of its interior rings (holes), a \<open>LineString\<close> its coordinates, and a
  \<open>MultiPolygon\<close> the exterior and holes of each of its parts. \<open>MultiPolygon\<close> stands for
  the geometries that are neither \<open>Polygon\<close> nor \<open>LineString\<close>.
\<close>

datatype geometry =
    Polygon (exterior: "point list") (interiors: "point list list")
  | LineString (coords: "point list")
  | MultiPolygon (geoms: "(point list \<times> point list list) list")

text \<open>An svgpathtools \<open>Line\<close> has a start and an end point; a \<open>Path\<close> is a sequence of them.\<close>

datatype segment = Line (start: complex) (finish: complex)

type_synonym path = "segment list"

text \<open>
  The program raises nothing itself and catches nothing. The two exceptions that reach it
  from its libraries on well-formed input files are values of the model: the exception
  that Shapely's \<open>LineString\<close> constructor raises for a list of exactly one point, and
  the \<open>AssertionError\<close> of svgpathtools' \<open>wsvg\<close> for an empty list of paths.
\<close>

datatype error = ShapelyError | AssertionError

text \<open>
  The operations of the Shapely library that the program calls are not part of the
  repository. They are a parameter of the model: the properties \<open>is_valid\<close>, \<open>is_empty\<close>
  and \<open>area\<close> of a geometry, and its method \<open>buffer\<close> (geometry and signed distance).
\<close>

record shapely =
  is_valid :: "geometry \<Rightarrow> bool"
  is_empty :: "geometry \<Rightarrow> bool"
  area :: "geometry \<Rightarrow> real"
  buffer :: "geometry \<Rightarrow> real \<Rightarrow> geometry"

section \<open>The functions of vectorizer.py\<close>

text \<open>
  \<open>zip(coords[:-1], coords[1:])\<close> pairs every coordinate with its successor; each pair
  becomes a \<open>Line\<close> between the two complex numbers.
\<close>

definition lines_of :: "point list \<Rightarrow> path" where
  "lines_of cs =
     map (\<lambda>((x1, y1), (x2, y2)). Line (Complex x1 y1) (Complex x2 y2))
       (zip (butlast cs) (tl cs))"

text \<open>
  \<open>shapely_to_svgpathtools\<close>: a \<open>Polygon\<close> is converted from \<open>geometry.exterior.coords\<close>,
  a \<open>LineString\<close> from \<open>geometry.coords\<close>; every other geometry gives \<open>None\<close>.
\<close>

fun shapely_to_svgpathtools :: "geometry \<Rightarrow> path option" where
  "shapely_to_svgpathtools (Polygon ext holes) = Some (lines_of ext)"
| "shapely_to_svgpathtools (LineString cs) = Some (lines_of cs)"
| "shapely_to_svgpathtools (MultiPolygon gs) = None"

text \<open>
  \<open>inset_polygon\<close>: \<open>None\<close> when the polygon passed in is invalid or empty; otherwise the
  buffer by \<open>-offset\<close>, unless that is empty or has area \<open>\<le> 0\<close>.
\<close>

definition inset_polygon :: "shapely \<Rightarrow> geometry \<Rightarrow> real \<Rightarrow> geometry option" where
  "inset_polygon L polygon offset =
     (if \<not> is_valid L polygon \<or> is_empty L polygon then None
      else let inset = buffer L polygon (- offset)
           in if is_empty L inset \<or> area L inset \<le> 0 then None else Some inset)"

text \<open>
  Lines 47 to 49 of \<open>process_svg\<close>: the shape is converted, and the path is appended when
  it is truthy, that is neither \<open>None\<close> nor a path without segments.
\<close>

definition append_path :: "path list \<Rightarrow> geometry \<Rightarrow> path list" where
  "append_path processed_paths shape =
     (case shapely_to_svgpathtools shape of
        None \<Rightarrow> processed_paths
      | Some processed_path \<Rightarrow>
          if processed_path \<noteq> [] then processed_paths @ [processed_path]
          else processed_paths)"

text \<open>
  The \<open>while True\<close> loop of \<open>process_svg\<close> for one shape. Nothing bounds the number of
  iterations, so the loop is a partial function: \<open>None\<close> means that it never returns.
\<close>

partial_function (option) inset_loop ::
    "shapely \<Rightarrow> real \<Rightarrow> geometry \<Rightarrow> path list \<Rightarrow> path list option" where
  "inset_loop L offset shape processed_paths =
     (case inset_polygon L shape offset of
        None \<Rightarrow> Some processed_paths
      | Some shape' \<Rightarrow> inset_loop L offset shape' (append_path processed_paths shape'))"

text \<open>
  The values that the variable \<open>shape\<close> takes on line 44 of the same loop, in order: the
  accepted candidates (the rings) of one input shape.
\<close>

partial_function (option) inset_rings ::
    "shapely \<Rightarrow> real \<Rightarrow> geometry \<Rightarrow> geometry list option" where
  "inset_rings L offset shape =
     (case inset_polygon L shape offset of
        None \<Rightarrow> Some []
      | Some shape' \<Rightarrow> inset_rings L offset shape' \<bind> (\<lambda>rings. Some (shape' # rings)))"

text \<open>
  The constructor call \<open>LineString(points)\<close>: Shapely refuses a list of exactly one point
  with an exception; the empty list gives the empty line string.
\<close>

definition LineString_new :: "point list \<Rightarrow> error + geometry" where
  "LineString_new points =
     (if length points = 1 then Inl ShapelyError else Inr (LineString points))"

text \<open>
  Lines 40 and 41: the points are the start points of the segments, so the end point of
  the last segment is not among them; more than two points make a \<open>Polygon\<close>, otherwise
  \<open>LineString(points)\<close> is called. The exterior of the initial \<open>Polygon\<close> is kept as the
  list passed to the constructor (Shapely closes the ring); the program never reads it.
\<close>

definition shape_of_path :: "path \<Rightarrow> error + geometry" where
  "shape_of_path p =
     (let points = map (\<lambda>segment. (Re (start segment), Im (start segment))) p
      in if length points > 2 then Inr (Polygon points []) else LineString_new points)"

text \<open>
  The \<open>for\<close> loop of \<open>process_svg\<close> over the paths read from the file. Nothing catches
  an exception of the constructor: it ends the loop over the paths, and \<open>Inl\<close> is the
  result. \<open>Inr\<close> carries the list \<open>processed_paths\<close> after the last path.
\<close>

fun process_paths ::
    "shapely \<Rightarrow> real \<Rightarrow> path list \<Rightarrow> path list \<Rightarrow> (error + path list) option" where
  "process_paths L offset [] processed_paths = Some (Inr processed_paths)"
| "process_paths L offset (p # ps) processed_paths =
     (case shape_of_path p of
        Inl e \<Rightarrow> Some (Inl e)
      | Inr shape \<Rightarrow>
          inset_loop L offset shape processed_paths \<bind> process_paths L offset ps)"

text \<open>
  \<open>wsvg\<close> writes the paths to the output file; for an empty list it fails an assertion
  and writes nothing. \<open>Inr\<close> carries the paths written.
\<close>

definition wsvg :: "path list \<Rightarrow> error + path list" where
  "wsvg paths = (if paths = [] then Inl AssertionError else Inr paths)"

text \<open>\<open>process_svg\<close>: the loop over the paths, then \<open>wsvg\<close> on the paths collected.\<close>

definition process_svg ::
    "shapely \<Rightarrow> real \<Rightarrow> path list \<Rightarrow> (error + path list) option" where
  "process_svg L offset paths =
     process_paths L offset paths [] \<bind>
       (\<lambda>r. Some (case r of Inl e \<Rightarrow> Inl e | Inr processed_paths \<Rightarrow> wsvg processed_paths))"

text \<open>
  \<open>process_raster\<close>: \<open>raster_to_vector\<close> has the external tracer write an SVG file, and
  \<open>process_svg\<close> runs on that file. The paths read from it are the argument here.
\<close>

definition process_raster ::
    "shapely \<Rightarrow> real \<Rightarrow> path list \<Rightarrow> (error + path list) option" where
  "process_raster L offset traced_paths = process_svg L offset traced_paths"

text \<open>
  \<open>str.lower\<close> on ASCII letters, which is all that a comparison with the lower-case
  ASCII extensions of \<open>main\<close> can tell apart.
\<close>

definition lower_char :: "char \<Rightarrow> char" where
  "lower_char c =
     (let n = (of_char c :: nat) in if 65 \<le> n \<and> n \<le> 90 then char_of (n + 32) else c)"

definition lower :: "string \<Rightarrow> string" where
  "lower s = map lower_char s"

text \<open>
  What one run of \<open>main\<close> leaves behind: the lines printed on standard output, the paths
  written to the output file (\<open>None\<close> when no file is written), and the exit status of
  the interpreter, which is 0 when \<open>main\<close> returns normally and 1 when an exception
  leaves it.
\<close>

record run =
  printed :: "string list"
  written :: "path list option"
  exit_status :: int

definition run_of :: "error + path list \<Rightarrow> run" where
  "run_of r =
     (case r of
        Inl e \<Rightarrow> \<lparr>printed = [], written = None, exit_status = 1\<rparr>
      | Inr out \<Rightarrow> \<lparr>printed = [], written = Some out, exit_status = 0\<rparr>)"

definition unsupported_message :: string where
  "unsupported_message = ''Unsupported file format. Please provide an SVG or raster image.''"

text \<open>
  \<open>main\<close>, from line 90 on. Its inputs are \<open>input_path.suffix\<close>, the offset, the paths
  that \<open>svg2paths\<close> reads from the input file, and the paths that it reads from the file
  written by the tracer.
\<close>

definition main :: "shapely \<Rightarrow> string \<Rightarrow> real \<Rightarrow> path list \<Rightarrow> path list \<Rightarrow> run option" where
  "main L suffix offset svg_paths traced_paths =
     (if lower suffix \<in> set [''.svg''] then
        process_svg L offset svg_paths \<bind> (\<lambda>r. Some (run_of r))
      else if lower suffix \<in> set [''.png'', ''.jpeg'', ''.jpg''] then
        process_raster L offset traced_paths \<bind> (\<lambda>r. Some (run_of r))
      else Some \<lparr>printed = [unsupported_message], written = None, exit_status = 0\<rparr>)"

section \<open>Runs of the loop as lists\<close>

text \<open>
  \<open>is_trace L offset shape rings\<close>: the loop started on \<open>shape\<close> accepts exactly the
  candidates \<open>rings\<close>, in this order, and then stops.
\<close>

fun is_trace :: "shapely \<Rightarrow> real \<Rightarrow> geometry \<Rightarrow> geometry list \<Rightarrow> bool" where
  "is_trace L offset shape [] = (inset_polygon L shape offset = None)"
| "is_trace L offset shape (r # rings) =
     (inset_polygon L shape offset = Some r \<and> is_trace L offset r rings)"

section \<open>Instances of the geometry library\<close>

text \<open>
  Shapely itself is not modelled. Two small instances of the library parameter stand in
  for it where a theorem is applied to a concrete input. The first one treats a polygon as the axis-parallel square given by its first two
  exterior points: the buffer moves every side by the distance, and a square whose side
  would not stay positive becomes the empty polygon. Validity is a parameter of the instance.
\<close>

fun box_side :: "geometry \<Rightarrow> real" where
  "box_side (Polygon ((a, _) # (b, _) # _) _) = b - a"
| "box_side _ = 0"

fun box_origin :: "geometry \<Rightarrow> real" where
  "box_origin (Polygon ((a, _) # _) _) = a"
| "box_origin _ = 0"

definition square :: "real \<Rightarrow> real \<Rightarrow> geometry" where
  "square a b = Polygon [(a, a), (b, a), (b, b), (a, b), (a, a)] []"

fun no_coords :: "geometry \<Rightarrow> bool" where
  "no_coords (Polygon ext holes) = (ext = [])"
| "no_coords (LineString cs) = (cs = [])"
| "no_coords (MultiPolygon gs) = (gs = [])"

definition box_buffer :: "geometry \<Rightarrow> real \<Rightarrow> geometry" where
  "box_buffer g d =
     (let s = box_side g + 2 * d
      in if 0 < s then square (box_origin g - d) (box_origin g - d + s) else Polygon [] [])"

definition box_area :: "geometry \<Rightarrow> real" where
  "box_area g = (if 0 < box_side g then (box_side g)\<^sup>2 else 0)"

definition box_lib :: "(geometry \<Rightarrow> bool) \<Rightarrow> shapely" where
  "box_lib valid =
     \<lparr>is_valid = valid, is_empty = no_coords, area = box_area, buffer = box_buffer\<rparr>"

text \<open>The square library with every geometry valid.\<close>

definition plain_lib :: shapely where
  "plain_lib = box_lib (\<lambda>g. True)"

text \<open>
  The same library when a distance below \<open>1 / 10 ^ 16\<close> is lost in rounding: the buffer
  by such a distance leaves the shape, and so its area, as it is.
\<close>

definition absorb_lib :: shapely where
  "absorb_lib =
     \<lparr>is_valid = (\<lambda>g. True), is_empty = no_coords, area = box_area,
      buffer = (\<lambda>g d. if \<bar>d\<bar> < 1 / 10 ^ 16 then g else box_buffer g d)\<rparr>"

text \<open>
  The second instance is scripted: the buffer of a geometry is looked up in a table
  (the empty polygon when the table has no entry), and every geometry with coordinates
  is valid and has area 1.
\<close>

definition scripted_lib :: "(geometry \<times> geometry) list \<Rightarrow> shapely" where
  "scripted_lib script =
     \<lparr>is_valid = (\<lambda>g. True), is_empty = no_coords,
      area = (\<lambda>g. if no_coords g then 0 else 1),
      buffer = (\<lambda>g d. case map_of script g of Some c \<Rightarrow> c | None \<Rightarrow> Polygon [] [])\<rparr>"

text \<open>
  The closed path around the square with corners (0,0), (10,0), (10,10), (0,10), and the
  polygon that line 41 builds from it.
\<close>

definition square_path :: path where
  "square_path =
     [Line (Complex 0 0) (Complex 10 0), Line (Complex 10 0) (Complex 10 10),
      Line (Complex 10 10) (Complex 0 10), Line (Complex 0 10) (Complex 0 0)]"

definition square_shape :: geometry where
  "square_shape = Polygon [(0, 0), (10, 0), (10, 10), (0, 10)] []"

text \<open>
  A polygon with a hole, a geometry of two parts and the polygon left of its larger part,
  as entries of a script.
\<close>

definition holed :: geometry where
  "holed =
     Polygon [(0, 0), (9, 0), (9, 9), (0, 9), (0, 0)] [[(4, 4), (5, 4), (5, 5), (4, 4)]]"

definition two_parts :: geometry where
  "two_parts =
     MultiPolygon
       [([(1, 1), (3, 1), (3, 3), (1, 3), (1, 1)], []),
        ([(7, 1), (11, 1), (11, 5), (7, 5), (7, 1)], [])]"

definition last_part :: geometry where
  "last_part = Polygon [(8, 2), (10, 2), (10, 4), (8, 4), (8, 2)] []"

definition split_script :: "(geometry \<times> geometry) list" where
  "split_script = [(square_shape, two_parts), (two_parts, last_part)]"

text \<open>
  The path of the square from \<open>(a, a)\<close> to \<open>(b, b)\<close>, a path of two segments, and a path
  of one segment (an SVG line from (0,0) to (3,4)).
\<close>

definition square_ring :: "real \<Rightarrow> real \<Rightarrow> path" where
  "square_ring a b = lines_of [(a, a), (b, a), (b, b), (a, b), (a, a)]"


definition one_segment_path :: path where
  "one_segment_path = [Line (Complex 0 0) (Complex 3 4)]"

section \<open>Basic facts about one iteration\<close>

lemma inset_polygon_Some_iff:
  "inset_polygon L g offset = Some c \<longleftrightarrow>
     is_valid L g \<and> \<not> is_empty L g \<and> c = buffer L g (- offset) \<and>
     \<not> is_empty L c \<and> 0 < area L c"
  by (auto simp: inset_polygon_def Let_def)

lemma inset_polygon_None_iff:
  "inset_polygon L g offset = None \<longleftrightarrow>
     \<not> is_valid L g \<or> is_empty L g \<or>
     is_empty L (buffer L g (- offset)) \<or> area L (buffer L g (- offset)) \<le> 0"
  by (auto simp: inset_polygon_def Let_def)

lemma inset_loop_stop:
  "inset_polygon L g offset = None \<Longrightarrow> inset_loop L offset g acc = Some acc"
  by (subst inset_loop.simps) simp

lemma inset_loop_step:
  "inset_polygon L g offset = Some c \<Longrightarrow>
     inset_loop L offset g acc = inset_loop L offset c (append_path acc c)"
  by (subst inset_loop.simps) simp

lemma inset_rings_stop:
  "inset_polygon L g offset = None \<Longrightarrow> inset_rings L offset g = Some []"
  by (subst inset_rings.simps) simp

lemma inset_rings_step:
  "inset_polygon L g offset = Some c \<Longrightarrow>
     inset_rings L offset g = inset_rings L offset c \<bind> (\<lambda>rings. Some (c # rings))"
  by (subst inset_rings.simps) simp

section \<open>The loop and its traces\<close>

lemma inset_rings_iff_trace:
  "inset_rings L offset g = Some rs \<longleftrightarrow> is_trace L offset g rs"
proof (induction rs arbitrary: g)
  case Nil
  show ?case
    by (cases "inset_polygon L g offset")
       (auto simp: inset_rings_stop inset_rings_step bind_eq_Some_conv)
next
  case (Cons r rs)
  show ?case
    by (cases "inset_polygon L g offset")
       (auto simp: inset_rings_stop inset_rings_step bind_eq_Some_conv Cons.IH)
qed

lemma trace_inset_loop:
  "is_trace L offset g rs \<Longrightarrow> inset_loop L offset g acc = Some (foldl append_path acc rs)"
  by (induction rs arbitrary: g acc) (simp_all add: inset_loop_stop inset_loop_step)

lemma inset_loop_trace:
  assumes "inset_loop L offset g acc = Some ps"
  shows "\<exists>rs. is_trace L offset g rs \<and> ps = foldl append_path acc rs"
proof (induction rule: inset_loop.raw_induct [OF _ assms])
  case (1 loop L offset g acc ps)
  show ?case
  proof (cases "inset_polygon L g offset")
    case None
    with 1(2) have "ps = acc" by simp
    with None have "is_trace L offset g [] \<and> ps = foldl append_path acc []" by simp
    then show ?thesis by blast
  next
    case (Some c)
    with 1(2) have "loop L offset c (append_path acc c) = Some ps" by simp
    from 1(1)[OF this] obtain rs where
      "is_trace L offset c rs" "ps = foldl append_path (append_path acc c) rs" by blast
    with Some have "is_trace L offset g (c # rs) \<and> ps = foldl append_path acc (c # rs)"
      by simp
    then show ?thesis by blast
  qed
qed

lemma is_trace_unique:
  "is_trace L offset g rs \<Longrightarrow> is_trace L offset g rs' \<Longrightarrow> rs = rs'"
  by (metis inset_rings_iff_trace option.inject)

lemma trace_exists_bounded:
  assumes eps: "0 < eps"
    and dec: "\<And>g c. inset_polygon L g offset = Some c \<Longrightarrow> area L c \<le> area L g - eps"
  shows "area L g \<le> real n * eps \<Longrightarrow> \<exists>rs. is_trace L offset g rs \<and> length rs \<le> n"
proof (induction n arbitrary: g)
  case 0
  have "inset_polygon L g offset = None"
  proof (cases "inset_polygon L g offset")
    case (Some c)
    then have "0 < area L c" using inset_polygon_Some_iff by blast
    moreover from dec[OF Some] 0 eps have "area L c < 0" by simp
    ultimately show ?thesis by simp
  qed simp
  then have "is_trace L offset g [] \<and> length ([]::geometry list) \<le> 0" by simp
  then show ?case by blast
next
  case (Suc n)
  show ?case
  proof (cases "inset_polygon L g offset")
    case None
    then have "is_trace L offset g [] \<and> length ([]::geometry list) \<le> Suc n" by simp
    then show ?thesis by blast
  next
    case (Some c)
    from dec[OF Some] Suc.prems have "area L c \<le> real n * eps"
      by (simp add: algebra_simps)
    from Suc.IH[OF this] obtain rs where "is_trace L offset c rs" "length rs \<le> n" by blast
    with Some have "is_trace L offset g (c # rs) \<and> length (c # rs) \<le> Suc n" by simp
    then show ?thesis by blast
  qed
qed

lemma trace_exists:
  assumes eps: "0 < eps"
    and dec: "\<And>g c. inset_polygon L g offset = Some c \<Longrightarrow> area L c \<le> area L g - eps"
  shows "\<exists>rs. is_trace L offset g rs \<and> real (length rs) \<le> max 0 (area L g / eps) + 1"
proof -
  define n where "n = nat \<lceil>area L g / eps\<rceil>"
  have "area L g / eps \<le> real n" unfolding n_def by linarith
  with eps have "area L g \<le> real n * eps" by (simp add: pos_divide_le_eq)
  from trace_exists_bounded[OF eps dec this] obtain rs
    where rs: "is_trace L offset g rs" "length rs \<le> n" by blast
  have "real n \<le> max 0 (area L g / eps) + 1" unfolding n_def by linarith
  with rs show ?thesis by (intro exI[of _ rs]) simp
qed

lemma no_trace_invariant:
  assumes acc: "\<And>g. I g \<Longrightarrow> \<exists>c. inset_polygon L g offset = Some c \<and> I c"
  shows "I g \<Longrightarrow> \<not> is_trace L offset g rs"
proof (induction rs arbitrary: g)
  case Nil
  with acc[of g] show ?case by auto
next
  case (Cons r rs)
  with acc[of g] show ?case by auto
qed

lemma inset_loop_diverges:
  assumes "\<And>g. I g \<Longrightarrow> \<exists>c. inset_polygon L g offset = Some c \<and> I c" and "I g"
  shows "inset_loop L offset g acc = None"
proof (cases "inset_loop L offset g acc")
  case (Some ps)
  from inset_loop_trace[OF this] no_trace_invariant[of I L offset g, OF assms]
  show ?thesis by blast
qed simp






section \<open>Facts about the instances and the example paths\<close>

lemma box_side_square [simp]: "box_side (square a b) = b - a"
  by (simp add: square_def)

lemma box_origin_square [simp]: "box_origin (square a b) = a"
  by (simp add: square_def)

lemma no_coords_square [simp]: "\<not> no_coords (square a b)"
  by (simp add: square_def)

lemma box_area_buffer_pos:
  "0 < box_area (box_buffer g d) \<longleftrightarrow> 0 < box_side g + 2 * d"
  by (auto simp: box_area_def box_buffer_def Let_def)

lemma box_area_buffer:
  "box_area (box_buffer g d) = (if 0 < box_side g + 2 * d then (box_side g + 2 * d)\<^sup>2 else 0)"
  by (auto simp: box_area_def box_buffer_def Let_def)

lemma box_lib_sel [simp]:
  "is_valid (box_lib V) = V" "is_empty (box_lib V) = no_coords"
  "area (box_lib V) = box_area" "buffer (box_lib V) = box_buffer"
  by (simp_all add: box_lib_def)

lemma box_buffer_square:
  "box_buffer (square a b) d =
     (if 0 < b - a + 2 * d then square (a - d) (b + d) else Polygon [] [])"
  by (simp add: box_buffer_def Let_def add.commute)

lemma box_area_square: "box_area (square a b) = (if a < b then (b - a)\<^sup>2 else 0)"
  by (simp add: box_area_def)



lemma box_dec:
  "\<forall>g. is_valid (box_lib V) g \<and> \<not> is_empty (box_lib V) g \<and>
        \<not> is_empty (box_lib V) (buffer (box_lib V) g (- 1)) \<and>
        0 < area (box_lib V) (buffer (box_lib V) g (- 1)) \<longrightarrow>
        area (box_lib V) (buffer (box_lib V) g (- 1)) \<le> area (box_lib V) g - 4"
proof (intro allI impI)
  fix g :: geometry
  assume "is_valid (box_lib V) g \<and> \<not> is_empty (box_lib V) g \<and>
        \<not> is_empty (box_lib V) (buffer (box_lib V) g (- 1)) \<and>
        0 < area (box_lib V) (buffer (box_lib V) g (- 1))"
  then have s: "0 < box_side g - 2" by (simp add: box_area_buffer_pos)
  then have "(box_side g - 2)\<^sup>2 \<le> (box_side g)\<^sup>2 - 4"
    by (simp add: power2_eq_square algebra_simps)
  with s show "area (box_lib V) (buffer (box_lib V) g (- 1)) \<le> area (box_lib V) g - 4"
    by (simp add: box_area_buffer) (simp add: box_area_def)
qed

lemma box_grow:
  "\<forall>g d. 0 \<le> d \<longrightarrow>
     is_valid (box_lib (\<lambda>g. True)) g \<and> \<not> is_empty (box_lib (\<lambda>g. True)) g \<and>
     0 < area (box_lib (\<lambda>g. True)) g \<longrightarrow>
     is_valid (box_lib (\<lambda>g. True)) (buffer (box_lib (\<lambda>g. True)) g d) \<and>
     \<not> is_empty (box_lib (\<lambda>g. True)) (buffer (box_lib (\<lambda>g. True)) g d) \<and>
     0 < area (box_lib (\<lambda>g. True)) (buffer (box_lib (\<lambda>g. True)) g d)"
proof (intro allI impI)
  fix g :: geometry and d :: real
  assume d: "0 \<le> d"
    and "is_valid (box_lib (\<lambda>g. True)) g \<and> \<not> is_empty (box_lib (\<lambda>g. True)) g \<and>
     0 < area (box_lib (\<lambda>g. True)) g"
  then have "0 < box_side g" by (simp add: box_area_def split: if_splits)
  with d have s: "0 < box_side g + 2 * d" by simp
  then show "is_valid (box_lib (\<lambda>g. True)) (buffer (box_lib (\<lambda>g. True)) g d) \<and>
     \<not> is_empty (box_lib (\<lambda>g. True)) (buffer (box_lib (\<lambda>g. True)) g d) \<and>
     0 < area (box_lib (\<lambda>g. True)) (buffer (box_lib (\<lambda>g. True)) g d)"
    by (simp add: box_area_buffer_pos) (simp add: box_buffer_def Let_def)
qed

lemma shape_of_square_path: "shape_of_path square_path = Inr square_shape"
  by (simp add: shape_of_path_def square_path_def square_shape_def)

lemma lines_of_empty_iff: "lines_of cs = [] \<longleftrightarrow> length cs < 2"
  by (cases cs) (auto simp: lines_of_def)

lemma append_path_square [simp]: "append_path acc (square a b) = acc @ [square_ring a b]"
  by (simp add: append_path_def square_def square_ring_def lines_of_def)

lemma box_buffer_square_shape:
  "box_buffer square_shape d = box_buffer (square 0 10) d"
  by (simp add: square_shape_def box_buffer_def Let_def)

lemma no_coords_square_shape [simp]: "\<not> no_coords square_shape"
  by (simp add: square_shape_def)

lemma box_side_square_shape [simp]: "box_side square_shape = 10"
  by (simp add: square_shape_def)

lemma box_area_square_shape [simp]: "box_area square_shape = 100"
  by (simp add: box_area_def)


lemma absorb_lib_sel [simp]:
  "is_valid absorb_lib = (\<lambda>g. True)" "is_empty absorb_lib = no_coords"
  "area absorb_lib = box_area"
  "buffer absorb_lib = (\<lambda>g d. if \<bar>d\<bar> < 1 / 10 ^ 16 then g else box_buffer g d)"
  by (simp_all add: absorb_lib_def)

lemma absorb_step:
  "inset_polygon absorb_lib square_shape (1 / 10 ^ 17) = Some square_shape"
  by (simp add: inset_polygon_def Let_def)

lemma scripted_lib_sel [simp]:
  "is_valid (scripted_lib script) = (\<lambda>g. True)" "is_empty (scripted_lib script) = no_coords"
  "area (scripted_lib script) = (\<lambda>g. if no_coords g then 0 else 1)"
  "buffer (scripted_lib script) =
     (\<lambda>g d. case map_of script g of Some c \<Rightarrow> c | None \<Rightarrow> Polygon [] [])"
  by (simp_all add: scripted_lib_def)

lemma split_trace:
  "is_trace (scripted_lib split_script) 1 two_parts [last_part]"
  by (simp add: inset_polygon_def Let_def split_script_def square_shape_def two_parts_def
      last_part_def)


lemma shape_of_one_point: "length p = 1 \<Longrightarrow> shape_of_path p = Inl ShapelyError"
  by (simp add: shape_of_path_def LineString_new_def)



lemma plain_lib_sel [simp]:
  "is_valid plain_lib = (\<lambda>g. True)" "is_empty plain_lib = no_coords"
  "area plain_lib = box_area" "buffer plain_lib = box_buffer"
  by (simp_all add: plain_lib_def)

lemma corners_length:
  assumes "a < b" and "set ext = {(a, a), (b, a), (b, b), (a, b)}"
  shows "2 \<le> length (ext :: point list)"
proof -
  from assms(1) have "card {(a, a), (b, a), (b, b), (a, b)} = 4" by simp
  with assms(2) have "card (set ext) = 4" by simp
  with card_length[of ext] show ?thesis by simp
qed


lemma process_paths_single:
  assumes "shape_of_path p = Inr g" and "is_trace L offset g rs"
  shows "process_paths L offset [p] acc = Some (Inr (foldl append_path acc rs))"
  using assms(1) trace_inset_loop[OF assms(2)] by simp

lemma process_paths_diverges:
  assumes "shape_of_path p = Inr g" and "inset_loop L offset g acc = None"
  shows "process_paths L offset (p # ps) acc = None"
  using assms by simp

section \<open>The claims\<close>

subsection \<open>The acceptance test of the loop\<close>



subsection \<open>Offsets that are not positive\<close>

text \<open>
  C2, as the code has it: an offset that is 0 or negative is not rejected. The loop runs
  as for any offset, with the buffer distance \<open>-offset \<ge> 0\<close>. When a buffer by a
  non-negative distance keeps a valid, non-empty shape of positive area valid, non-empty
  and of positive area, the first candidate of such a shape is accepted, and so is every
  later one: the loop never returns.
\<close>

theorem nonpositive_offset_not_rejected:
  assumes "offset \<le> 0"
    and grow: "\<forall>g d. 0 \<le> d \<longrightarrow> is_valid L g \<and> \<not> is_empty L g \<and> 0 < area L g \<longrightarrow>
            is_valid L (buffer L g d) \<and> \<not> is_empty L (buffer L g d) \<and>
            0 < area L (buffer L g d)"
    and shape: "is_valid L shape" "\<not> is_empty L shape" "0 < area L shape"
  shows "inset_polygon L shape offset = Some (buffer L shape (- offset)) \<and>
         inset_rings L offset shape = None \<and> inset_loop L offset shape acc = None"
proof -
  define I where "I g \<longleftrightarrow> is_valid L g \<and> \<not> is_empty L g \<and> 0 < area L g" for g
  have step: "\<exists>c. inset_polygon L g offset = Some c \<and> I c" if "I g" for g
  proof -
    from assms(1) have "0 \<le> - offset" by simp
    with grow that have "I (buffer L g (- offset))" unfolding I_def by blast
    with that show ?thesis unfolding I_def by (simp add: inset_polygon_Some_iff)
  qed
  from shape have I: "I shape" by (simp add: I_def)
  from step[OF I] have "inset_polygon L shape offset = Some (buffer L shape (- offset))"
    by (auto simp: inset_polygon_Some_iff)
  moreover have "inset_rings L offset shape = None"
  proof (cases "inset_rings L offset shape")
    case (Some rs)
    then have "is_trace L offset shape rs" by (simp add: inset_rings_iff_trace)
    with no_trace_invariant[of I L offset shape rs] step I show ?thesis by blast
  qed simp
  moreover have "inset_loop L offset shape acc = None"
    using inset_loop_diverges[of I L offset shape acc] step I by blast
  ultimately show ?thesis by simp
qed

theorem nonpositive_offset_not_rejected_witness:
  "inset_polygon plain_lib (square 0 10) (- 1) = Some (square (- 1) 11) \<and>
   inset_rings plain_lib (- 1) (square 0 10) = None \<and>
   inset_loop plain_lib (- 1) (square 0 10) [] = None"
proof -
  have grow: "\<forall>g d. 0 \<le> d \<longrightarrow>
      is_valid plain_lib g \<and> \<not> is_empty plain_lib g \<and> 0 < area plain_lib g \<longrightarrow>
      is_valid plain_lib (buffer plain_lib g d) \<and> \<not> is_empty plain_lib (buffer plain_lib g d) \<and>
      0 < area plain_lib (buffer plain_lib g d)"
    unfolding plain_lib_def by (rule box_grow)
  have shape: "is_valid plain_lib (square 0 10)" "\<not> is_empty plain_lib (square 0 10)"
    "0 < area plain_lib (square 0 10)"
    by (simp_all add: plain_lib_def box_area_square)
  have neg: "(- 1 :: real) \<le> 0" by simp
  from nonpositive_offset_not_rejected [OF neg grow shape, of "[]"]
  show ?thesis by (simp add: plain_lib_def box_buffer_square)
qed

text \<open>
  C2 as stated fails: for the square of side 10 the candidates at offset 0 and at
  offset -1 are accepted, and the path of the candidate at offset 0 is appended.
\<close>

theorem zero_offset_accepted_counterexample:
  "shape_of_path square_path = Inr square_shape \<and>
   inset_polygon plain_lib square_shape 0 = Some (square 0 10) \<and>
   append_path [] (square 0 10) = [square_ring 0 10] \<and>
   inset_polygon plain_lib square_shape (- 1) = Some (square (- 1) 11)"
  by (simp add: shape_of_square_path plain_lib_def inset_polygon_def box_buffer_square_shape
      box_buffer_square box_area_square Let_def)

subsection \<open>Paths with at most two points\<close>

text \<open>
  C3 at a path of one segment, for every library and offset: line 40 keeps the start
  point only, \<open>LineString(points)\<close> raises for the single point, nothing catches the
  exception, \<open>wsvg\<close> is not reached, and the run ends with exit status 1 and no file.
  The inset computation does not return an empty sequence here.
\<close>

theorem one_segment_path_raises:
  "length one_segment_path \<le> 2 \<and>
   shape_of_path one_segment_path = Inl ShapelyError \<and>
   process_svg L offset [one_segment_path] = Some (Inl ShapelyError) \<and>
   process_svg L offset (one_segment_path # after) = Some (Inl ShapelyError) \<and>
   main L ''.svg'' offset (one_segment_path # after) traced_paths =
     Some \<lparr>printed = [], written = None, exit_status = 1\<rparr>"
proof -
  have raises: "shape_of_path one_segment_path = Inl ShapelyError"
    by (simp add: shape_of_one_point one_segment_path_def)
  then have "process_svg L offset (one_segment_path # ps) = Some (Inl ShapelyError)" for ps
    by (simp add: process_svg_def)
  moreover have "lower ''.svg'' = ''.svg''" by (simp add: lower_def lower_char_def)
  ultimately show ?thesis
    using raises by (simp add: main_def run_of_def one_segment_path_def)
qed

subsection \<open>Shrinking and termination\<close>




text \<open>
  C5, as the code has it: the loop has no bound on its iterations. It returns when every
  accepted step takes at least \<open>eps > 0\<close> of area away: then the rings exist for every
  shape, the output is the paths of these rings, and there are at most
  \<open>area / eps + 1\<close> of them.
\<close>

theorem inset_loop_terminates:
  assumes eps: "0 < eps"
    and dec: "\<forall>g. is_valid L g \<and> \<not> is_empty L g \<and>
            \<not> is_empty L (buffer L g (- offset)) \<and> 0 < area L (buffer L g (- offset)) \<longrightarrow>
            area L (buffer L g (- offset)) \<le> area L g - eps"
  shows "\<exists>rings. inset_rings L offset shape = Some rings \<and>
           inset_loop L offset shape acc = Some (foldl append_path acc rings) \<and>
           real (length rings) \<le> max 0 (area L shape / eps) + 1"
proof -
  have step: "area L c \<le> area L g - eps" if "inset_polygon L g offset = Some c" for g c
    using that dec by (auto simp: inset_polygon_Some_iff)
  from trace_exists[of eps L offset shape, OF eps step] obtain rs
    where rs: "is_trace L offset shape rs"
      "real (length rs) \<le> max 0 (area L shape / eps) + 1" by blast
  from rs(1) have "inset_rings L offset shape = Some rs" by (simp add: inset_rings_iff_trace)
  with trace_inset_loop[OF rs(1), of acc] rs(2) show ?thesis by blast
qed

theorem inset_loop_terminates_witness:
  "\<exists>rings. inset_rings plain_lib 1 square_shape = Some rings \<and>
     inset_loop plain_lib 1 square_shape [] = Some (foldl append_path [] rings) \<and>
     real (length rings) \<le> 26"
proof -
  have eps: "(0::real) < 4" by simp
  have dec: "\<forall>g. is_valid plain_lib g \<and> \<not> is_empty plain_lib g \<and>
        \<not> is_empty plain_lib (buffer plain_lib g (- 1)) \<and>
        0 < area plain_lib (buffer plain_lib g (- 1)) \<longrightarrow>
        area plain_lib (buffer plain_lib g (- 1)) \<le> area plain_lib g - 4"
    unfolding plain_lib_def by (rule box_dec)
  from inset_loop_terminates [OF eps dec, of square_shape "[]"]
  show ?thesis by simp
qed

text \<open>
  C5 as stated fails: the square of side 10 is valid, not empty and of positive area,
  the offset \<open>1 / 10 ^ 17\<close> is positive, and when the distance is lost in rounding every
  candidate is accepted: the loop never returns, and neither does \<open>process_svg\<close>.
\<close>

theorem tiny_offset_never_returns_counterexample:
  "(0::real) < 1 / 10 ^ 17 \<and>
   is_valid absorb_lib square_shape \<and> \<not> is_empty absorb_lib square_shape \<and>
   0 < area absorb_lib square_shape \<and>
   inset_loop absorb_lib (1 / 10 ^ 17) square_shape [] = None \<and>
   process_svg absorb_lib (1 / 10 ^ 17) [square_path] = None"
proof -
  have loop: "inset_loop absorb_lib (1 / 10 ^ 17) square_shape [] = None"
    using inset_loop_diverges[of "\<lambda>g. g = square_shape" absorb_lib "1 / 10 ^ 17"
        square_shape "[]"] absorb_step
    by simp
  from process_paths_diverges[OF shape_of_square_path loop]
  have "process_svg absorb_lib (1 / 10 ^ 17) [square_path] = None"
    by (simp add: process_svg_def)
  with loop show ?thesis by simp
qed

subsection \<open>The square of side 10\<close>

text \<open>
  C6: let \<open>sq a b\<close> be the library's polygon for the square from \<open>(a, a)\<close> to
  \<open>(b, b)\<close>, with area \<open>(b - a)\<^sup>2\<close>, whose buffer by \<open>-d\<close> is \<open>sq (a + d) (b - d)\<close> as
  long as \<open>2 d < b - a\<close> and is empty or without area otherwise. Then the square with
  corners (0,0), (10,0), (10,10), (0,10) and offset 1 gives exactly four rings, the
  squares of side 8 (from (1,1) to (9,9)), 6, 4 and 2; the candidate after the last one
  is rejected, and the four exterior paths are what is written.
\<close>

theorem square_scenario:
  fixes sq :: "real \<Rightarrow> real \<Rightarrow> geometry"
  assumes first: "is_valid L square_shape \<and>
            \<not> is_empty L square_shape \<and>
            buffer L square_shape (- 1) = sq 1 9"
    and sq_ok: "\<forall>a b. a < b \<longrightarrow>
            is_valid L (sq a b) \<and> \<not> is_empty L (sq a b) \<and> area L (sq a b) = (b - a)\<^sup>2"
    and sq_corners: "\<forall>a b. a < b \<longrightarrow>
            (\<exists>ext holes. sq a b = Polygon ext holes \<and>
               set ext = {(a, a), (b, a), (b, b), (a, b)})"
    and sq_in: "\<forall>a b d. 0 < d \<and> 2 * d < b - a \<longrightarrow>
            buffer L (sq a b) (- d) = sq (a + d) (b - d)"
    and sq_gone: "\<forall>a b d. a < b \<and> b - a \<le> 2 * d \<longrightarrow>
            is_empty L (buffer L (sq a b) (- d)) \<or> area L (buffer L (sq a b) (- d)) \<le> 0"
  shows "shape_of_path square_path = Inr square_shape \<and>
         square_shape = Polygon [(0, 0), (10, 0), (10, 10), (0, 10)] [] \<and>
         inset_rings L 1 square_shape =
           Some [sq 1 9, sq 2 8, sq 3 7, sq 4 6] \<and>
         map (area L) [sq 1 9, sq 2 8, sq 3 7, sq 4 6] = [8\<^sup>2, 6\<^sup>2, 4\<^sup>2, 2\<^sup>2] \<and>
         inset_polygon L (sq 4 6) 1 = None \<and>
         process_svg L 1 [square_path] =
           Some (Inr (map (\<lambda>g. lines_of (exterior g)) [sq 1 9, sq 2 8, sq 3 7, sq 4 6]))"
proof -
  have ok: "is_valid L (sq a b)" "\<not> is_empty L (sq a b)" "area L (sq a b) = (b - a)\<^sup>2"
    if "a < b" for a b
    using sq_ok that by blast+
  have inn: "buffer L (sq a b) (- d) = sq (a + d) (b - d)"
    if "0 < d" and "2 * d < b - a" for a b d
    using sq_in that by blast
  have s1: "inset_polygon L square_shape 1 = Some (sq 1 9)"
    using first ok[of 1 9] by (simp add: inset_polygon_Some_iff)
  have s2: "inset_polygon L (sq 1 9) 1 = Some (sq 2 8)"
    using inn[where a=1 and b=9 and d=1] ok[of 1 9] ok[of 2 8]
    by (simp add: inset_polygon_Some_iff)
  have s3: "inset_polygon L (sq 2 8) 1 = Some (sq 3 7)"
    using inn[where a=2 and b=8 and d=1] ok[of 2 8] ok[of 3 7]
    by (simp add: inset_polygon_Some_iff)
  have s4: "inset_polygon L (sq 3 7) 1 = Some (sq 4 6)"
    using inn[where a=3 and b=7 and d=1] ok[of 3 7] ok[of 4 6]
    by (simp add: inset_polygon_Some_iff)
  have s5: "inset_polygon L (sq 4 6) 1 = None"
    using sq_gone[THEN spec, of 4, THEN spec, of 6, THEN spec, of 1]
    by (simp add: inset_polygon_None_iff)
  from s1 s2 s3 s4 s5
  have trace: "is_trace L 1 square_shape [sq 1 9, sq 2 8, sq 3 7, sq 4 6]"
    by simp
  then have rings: "inset_rings L 1 square_shape =
      Some [sq 1 9, sq 2 8, sq 3 7, sq 4 6]"
    by (simp only: inset_rings_iff_trace)
  have areas: "map (area L) [sq 1 9, sq 2 8, sq 3 7, sq 4 6] = [8\<^sup>2, 6\<^sup>2, 4\<^sup>2, 2\<^sup>2]"
    using ok(3)[of 1 9] ok(3)[of 2 8] ok(3)[of 3 7] ok(3)[of 4 6] by simp
  have app: "append_path acc (sq a b) = acc @ [lines_of (exterior (sq a b))]"
    if "a < b" for a b acc
  proof -
    from sq_corners that obtain ext holes
      where e: "sq a b = Polygon ext holes" "set ext = {(a, a), (b, a), (b, b), (a, b)}"
      by blast
    from corners_length[OF that e(2)] have "lines_of ext \<noteq> []"
      by (simp add: lines_of_empty_iff)
    with e(1) show ?thesis by (simp add: append_path_def)
  qed
  from process_paths_single[OF shape_of_square_path trace, of "[]"]
  have "process_paths L 1 [square_path] [] =
      Some (Inr (map (\<lambda>g. lines_of (exterior g)) [sq 1 9, sq 2 8, sq 3 7, sq 4 6]))"
    by (simp add: app)
  then have out: "process_svg L 1 [square_path] =
      Some (Inr (map (\<lambda>g. lines_of (exterior g)) [sq 1 9, sq 2 8, sq 3 7, sq 4 6]))"
    by (simp add: process_svg_def wsvg_def)
  from shape_of_square_path square_shape_def rings areas s5 out show ?thesis by blast
qed

theorem square_scenario_witness:
  "process_svg plain_lib 1 [square_path] =
     Some (Inr [square_ring 1 9, square_ring 2 8, square_ring 3 7, square_ring 4 6]) \<and>
   inset_rings plain_lib 1 square_shape =
     Some [square 1 9, square 2 8, square 3 7, square 4 6] \<and>
   inset_polygon plain_lib (square 4 6) 1 = None"
proof -
  have first: "is_valid plain_lib square_shape \<and>
      \<not> is_empty plain_lib square_shape \<and>
      buffer plain_lib square_shape (- 1) = square 1 9"
    by (simp add: box_buffer_square_shape box_buffer_square)
  have sq_ok: "\<forall>a b. a < b \<longrightarrow> is_valid plain_lib (square a b) \<and>
      \<not> is_empty plain_lib (square a b) \<and> area plain_lib (square a b) = (b - a)\<^sup>2"
    by (simp add: box_area_square)
  have sq_corners: "\<forall>a b. a < b \<longrightarrow> (\<exists>ext holes. square a b = Polygon ext holes \<and>
      set ext = {(a, a), (b, a), (b, b), (a, b)})"
    by (auto simp: square_def)
  have sq_in: "\<forall>a b d. 0 < d \<and> 2 * d < b - a \<longrightarrow>
      buffer plain_lib (square a b) (- d) = square (a + d) (b - d)"
    by (simp add: box_buffer_square)
  have sq_gone: "\<forall>a b d. a < b \<and> b - a \<le> 2 * d \<longrightarrow>
      is_empty plain_lib (buffer plain_lib (square a b) (- d)) \<or>
      area plain_lib (buffer plain_lib (square a b) (- d)) \<le> 0"
    by (simp add: box_buffer_square)
  from square_scenario [of plain_lib square, OF first sq_ok sq_corners sq_in sq_gone,
      THEN conjunct2, THEN conjunct2]
  show ?thesis by (simp add: square_def square_ring_def)
qed

subsection \<open>Shapes with fewer than three points in a batch\<close>




subsection \<open>Unsupported input files\<close>

text \<open>
  C8, as the code has it: when the lower-cased suffix of the input file is none of
  \<open>.svg\<close>, \<open>.png\<close>, \<open>.jpeg\<close>, \<open>.jpg\<close>, \<open>main\<close> prints the diagnostic, never calls
  \<open>wsvg\<close>, and returns normally, so the exit status is 0.
\<close>

theorem unsupported_extension:
  assumes "lower suffix \<notin> {''.svg'', ''.png'', ''.jpeg'', ''.jpg''}"
  shows "main L suffix offset svg_paths traced_paths =
     Some \<lparr>printed = [unsupported_message], written = None, exit_status = 0\<rparr>"
  using assms by (simp add: main_def)

theorem unsupported_extension_witness:
  "main (plain_lib) ''.TXT'' 1 [square_path] [square_path] =
     Some \<lparr>printed = [unsupported_message], written = None, exit_status = 0\<rparr>"
  using unsupported_extension
    [of "''.TXT''" "plain_lib" 1 "[square_path]" "[square_path]"]
  by (simp add: lower_def lower_char_def)

text \<open>
  C8 as stated fails: for the input suffix \<open>.txt\<close> the run ends with exit status 0.
\<close>

theorem unsupported_extension_exits_zero_counterexample:
  "main (plain_lib) ''.txt'' 1 [] [] =
     Some \<lparr>printed = [unsupported_message], written = None, exit_status = 0\<rparr>"
  by (simp add: main_def lower_def lower_char_def)

subsection \<open>What is written for an accepted candidate\<close>

text \<open>
  C9: the path written for a \<open>Polygon\<close> is built from its exterior ring alone, so the
  same path is appended whatever its holes are, while the shape that the loop carries
  into the next iteration is the candidate itself, holes included.
\<close>

theorem only_exterior_is_written:
  "shapely_to_svgpathtools (Polygon ext holes) = Some (lines_of ext) \<and>
   append_path acc (Polygon ext holes) = append_path acc (Polygon ext []) \<and>
   (inset_polygon L shape offset = Some (Polygon ext holes) \<longrightarrow>
      inset_loop L offset shape acc =
        inset_loop L offset (Polygon ext holes) (append_path acc (Polygon ext [])))"
  by (simp add: append_path_def inset_loop_step)

theorem only_exterior_is_written_witness:
  "inset_polygon (scripted_lib [(square 0 10, holed)]) (square 0 10) 1 = Some holed \<and>
   inset_loop (scripted_lib [(square 0 10, holed)]) 1 (square 0 10) [] =
     inset_loop (scripted_lib [(square 0 10, holed)]) 1 holed
       [lines_of [(0, 0), (9, 0), (9, 9), (0, 9), (0, 0)]]"
  using only_exterior_is_written
    [of "[(0, 0), (9, 0), (9, 9), (0, 9), (0, 0)]" "[[(4, 4), (5, 4), (5, 5), (4, 4)]]" "[]"
        "scripted_lib [(square 0 10, holed)]" "square 0 10" 1]
  by (simp add: inset_polygon_def scripted_lib_def holed_def square_def append_path_def
      lines_of_def)

text \<open>
  C10: when the current shape is valid and not empty and its buffer is a \<open>MultiPolygon\<close>
  that is not empty and has positive area, this candidate is accepted: it is the next
  ring and the current shape of the next iteration. Its conversion is \<open>None\<close>, so nothing
  is appended for it: the candidate computed from the \<open>MultiPolygon\<close> is appended right
  after what was there before, and the paths of a run are those of the rings that follow
  the \<open>MultiPolygon\<close>.
\<close>

theorem multipolygon_not_written:
  assumes "is_valid L shape" and "\<not> is_empty L shape"
    and "buffer L shape (- offset) = MultiPolygon gs"
    and "\<not> is_empty L (MultiPolygon gs)" and "0 < area L (MultiPolygon gs)"
  shows "inset_polygon L shape offset = Some (MultiPolygon gs) \<and>
         shapely_to_svgpathtools (MultiPolygon gs) = None \<and>
         append_path acc (MultiPolygon gs) = acc \<and>
         inset_rings L offset shape =
           inset_rings L offset (MultiPolygon gs) \<bind> (\<lambda>rings. Some (MultiPolygon gs # rings)) \<and>
         inset_loop L offset shape acc = inset_loop L offset (MultiPolygon gs) acc \<and>
         (inset_polygon L (MultiPolygon gs) offset = Some c \<longrightarrow>
            inset_loop L offset shape acc = inset_loop L offset c (append_path acc c)) \<and>
         (is_trace L offset (MultiPolygon gs) rest \<longrightarrow>
            inset_rings L offset shape = Some (MultiPolygon gs # rest) \<and>
            inset_loop L offset shape acc = Some (foldl append_path acc rest))"
proof -
  from assms have step: "inset_polygon L shape offset = Some (MultiPolygon gs)"
    by (simp add: inset_polygon_Some_iff)
  have app: "append_path acc (MultiPolygon gs) = acc" by (simp add: append_path_def)
  from inset_loop_step[OF step] app
  have loop: "inset_loop L offset shape acc = inset_loop L offset (MultiPolygon gs) acc"
    by simp
  have two: "inset_loop L offset shape acc = inset_loop L offset c (append_path acc c)"
    if "inset_polygon L (MultiPolygon gs) offset = Some c"
    using loop inset_loop_step[OF that] by simp
  have run: "inset_rings L offset shape = Some (MultiPolygon gs # rest) \<and>
      inset_loop L offset shape acc = Some (foldl append_path acc rest)"
    if "is_trace L offset (MultiPolygon gs) rest"
  proof -
    from step that have "is_trace L offset shape (MultiPolygon gs # rest)" by simp
    then have "inset_rings L offset shape = Some (MultiPolygon gs # rest)"
      by (simp only: inset_rings_iff_trace)
    with loop trace_inset_loop[OF that, of acc] show ?thesis by simp
  qed
  from step app inset_rings_step[OF step] loop two run show ?thesis by simp
qed

theorem multipolygon_not_written_witness:
  "inset_polygon (scripted_lib split_script) square_shape 1 = Some two_parts \<and>
   inset_rings (scripted_lib split_script) 1 square_shape = Some [two_parts, last_part] \<and>
   inset_loop (scripted_lib split_script) 1 square_shape [] =
     Some [lines_of [(8, 2), (10, 2), (10, 4), (8, 4), (8, 2)]]"
proof -
  have buf: "buffer (scripted_lib split_script) square_shape (- 1) =
      MultiPolygon [([(1, 1), (3, 1), (3, 3), (1, 3), (1, 1)], []),
        ([(7, 1), (11, 1), (11, 5), (7, 5), (7, 1)], [])]"
    by (simp add: split_script_def two_parts_def)
  have rest: "is_trace (scripted_lib split_script) 1
      (MultiPolygon [([(1, 1), (3, 1), (3, 3), (1, 3), (1, 1)], []),
        ([(7, 1), (11, 1), (11, 5), (7, 5), (7, 1)], [])]) [last_part]"
    using split_trace by (simp only: two_parts_def)
  have ok: "is_valid (scripted_lib split_script) square_shape"
    "\<not> is_empty (scripted_lib split_script) square_shape"
    "\<not> is_empty (scripted_lib split_script)
       (MultiPolygon [([(1, 1), (3, 1), (3, 3), (1, 3), (1, 1)], []),
         ([(7, 1), (11, 1), (11, 5), (7, 5), (7, 1)], [])])"
    "0 < area (scripted_lib split_script)
       (MultiPolygon [([(1, 1), (3, 1), (3, 3), (1, 3), (1, 1)], []),
         ([(7, 1), (11, 1), (11, 5), (7, 5), (7, 1)], [])])"
    by simp_all
  note all = multipolygon_not_written [OF ok(1,2) buf ok(3,4), where acc = "[]"
      and rest = "[last_part]"]
  note accepted = all [THEN conjunct1]
  note run = all [THEN conjunct2, THEN conjunct2, THEN conjunct2, THEN conjunct2,
      THEN conjunct2, THEN conjunct2, rule_format, OF rest]
  have "append_path [] last_part = [lines_of [(8, 2), (10, 2), (10, 4), (8, 4), (8, 2)]]"
    by (simp add: append_path_def last_part_def lines_of_def)
  with accepted run show ?thesis by (simp add: two_parts_def)
qed

end
